theory Spec2Isabelle
  imports Main
begin

section \<open>Values and errors\<close>

text \<open>
  A promise that rejects, or a synchronous throw, is an error value. The source rejects
  with plain strings (\<open>Promise.reject(`Sersation with id ... not found.`)\<close>,
  \<open>callback('No text provided')\<close>); the document store rejects with its own errors;
  a document that does not satisfy the schema is rejected with a validation error before
  anything is sent to the store; reading a property of \<open>undefined\<close> throws a
  TypeError.
\<close>

datatype error =
    StringError string
  | BackendError string
  | ValidationError string
  | TypeError string

text \<open>
  A JavaScript property that holds a number, may be missing (\<open>undefined\<close>) and may have
  become \<open>NaN\<close>. The postfix increment \<open>x++\<close> converts its operand to a number
  first: \<open>undefined\<close> converts to \<open>NaN\<close>, and \<open>NaN + 1\<close> is \<open>NaN\<close>.
\<close>

datatype jsnumber = Undefined | NaN | Num int

fun js_increment :: "jsnumber \<Rightarrow> jsnumber" where
  "js_increment Undefined = NaN"
| "js_increment NaN = NaN"
| "js_increment (Num k) = Num (k + 1)"

section \<open>Session.model.ts\<close>

subsection \<open>The session document and its collection\<close>

text \<open>
  \<open>ISessionDocument\<close>: the four fields of \<open>ISessionModel\<close> and the identifier
  the document store gives every document. The schema has no other field.
\<close>

record session_doc =
  doc_id :: nat
  conversationId :: string
  consecutiveNotUnderstand :: int
  createdAt :: "nat option"
  updatedAt :: "nat option"

datatype store_request = FindOne string | Create string | SaveDocument nat

text \<open>
  The world outside the dispatcher: the documents of the Session collection in insertion
  order, the clock that \<open>new Date()\<close> reads, the outcome of the coming requests to the
  store (\<open>Some msg\<close>: the store rejects the request, for whatever reason: connection,
  validation, conflict; an exhausted list means the store answers), and the requests
  received so far.
\<close>

record world =
  docs :: "session_doc list"
  clock :: nat
  faults :: "string option list"
  requests :: "store_request list"

definition request :: "store_request \<Rightarrow> world \<Rightarrow> string option \<times> world" where
  "request r w =
     (case faults w of
        [] \<Rightarrow> (None, w\<lparr>requests := requests w @ [r]\<rparr>)
      | f # fs \<Rightarrow> (f, w\<lparr>faults := fs, requests := requests w @ [r]\<rparr>))"

definition new_Date :: "world \<Rightarrow> nat" where
  "new_Date w = clock w"

definition fresh_id :: "session_doc list \<Rightarrow> nat" where
  "fresh_id ds = Suc (fold max (map doc_id ds) 0)"

subsection \<open>The pre-save hook\<close>

text \<open>
  \<open>sessionSchema.pre('save', (next) => { if (this._doc) {...} next(); })\<close>.
  The body of the hook works on \<open>this._doc\<close>: it sets \<open>createdAt\<close> when it is
  missing and always sets \<open>updatedAt\<close>. The hook is an arrow function, so its
  \<open>this\<close> is the \<open>this\<close> of the enclosing module (the module's exports object) and not
  the document being saved; the exports object has no \<open>_doc\<close> property. The hook body
  is \<open>pre_save\<close>, taking the \<open>_doc\<close> of its \<open>this\<close>; \<open>run_pre_save\<close> is the
  store running the hook for a document.
\<close>

definition pre_save :: "nat \<Rightarrow> session_doc option \<Rightarrow> session_doc option" where
  "pre_save now this_doc =
     (case this_doc of
        None \<Rightarrow> None
      | Some doc \<Rightarrow>
          Some ((if createdAt doc = None then doc\<lparr>createdAt := Some now\<rparr> else doc)
                  \<lparr>updatedAt := Some now\<rparr>))"

definition module_this_doc :: "session_doc option" where
  "module_this_doc = None"

definition run_pre_save :: "world \<Rightarrow> session_doc \<Rightarrow> session_doc" where
  "run_pre_save w saved = (case pre_save (new_Date w) module_this_doc of _ \<Rightarrow> saved)"

subsection \<open>SessionModel: the operations of the document store used by the source\<close>

text \<open>
  The schema declares \<open>conversationId: { type: String, required: true }\<close>; the other
  paths are not required. The library validates a document against the schema before it
  writes it, on \<open>create\<close> and on \<open>save\<close>; for a string path, \<open>required\<close> is
  not met by the empty string. A document that fails is rejected and no request reaches the
  store.
\<close>

definition missing_conversationId :: error where
  "missing_conversationId = ValidationError ''Path `conversationId` is required.''"

definition validate :: "session_doc \<Rightarrow> error option" where
  "validate doc = (if conversationId doc = [] then Some missing_conversationId else None)"

definition SessionModel_findOne ::
  "string \<Rightarrow> world \<Rightarrow> (error + session_doc option) \<times> world" where
  "SessionModel_findOne cid w =
     (case request (FindOne cid) w of
        (Some msg, w') \<Rightarrow> (Inl (BackendError msg), w')
      | (None, w') \<Rightarrow> (Inr (find (\<lambda>d. conversationId d = cid) (docs w')), w'))"

definition SessionModel_create ::
  "session_doc \<Rightarrow> world \<Rightarrow> (error + session_doc) \<times> world" where
  "SessionModel_create instance w =
     (case validate instance of
        Some invalid \<Rightarrow> (Inl invalid, w)
      | None \<Rightarrow>
          (case request (Create (conversationId instance)) w of
             (Some msg, w') \<Rightarrow> (Inl (BackendError msg), w')
           | (None, w') \<Rightarrow>
               (let doc = run_pre_save w' (instance\<lparr>doc_id := fresh_id (docs w')\<rparr>)
                in (Inr doc, w'\<lparr>docs := docs w' @ [doc]\<rparr>))))"

text \<open>
  \<open>document.save()\<close> of a document read from the store. The library keeps track of the
  paths that were assigned a value other than the one they had; when there is none, the save
  sends nothing to the store and succeeds. \<open>modified\<close> says whether there is one.
\<close>

definition document_save ::
  "bool \<Rightarrow> session_doc \<Rightarrow> world \<Rightarrow> (error + session_doc) \<times> world" where
  "document_save modified doc w =
     (case validate doc of
        Some invalid \<Rightarrow> (Inl invalid, w)
      | None \<Rightarrow>
          (if \<not> modified then (Inr (run_pre_save w doc), w)
           else
             (case request (SaveDocument (doc_id doc)) w of
                (Some msg, w') \<Rightarrow> (Inl (BackendError msg), w')
              | (None, w') \<Rightarrow>
                  (let doc' = run_pre_save w' doc
                   in (Inr doc',
                       w'\<lparr>docs := map (\<lambda>d. if doc_id d = doc_id doc' then doc' else d)
                                     (docs w')\<rparr>)))))"

subsection \<open>The Session class\<close>

text \<open>
  A Session object wraps a document. \<open>onMessage\<close> also writes two properties the class
  does not declare, \<open>_previousNotUnderstand\<close> and \<open>messageCount\<close>; they live on the
  wrapper, not on the document, and are \<open>undefined\<close> on a new wrapper.
  \<open>document_modified\<close> is the library's note that a path of the wrapped document was
  assigned another value since the document was read or written.
\<close>

record session =
  document :: session_doc
  document_modified :: bool
  previousNotUnderstand :: "int option"
  messageCount :: jsnumber

definition new_Session :: "session_doc \<Rightarrow> session" where
  "new_Session model =
     \<lparr>document = model, document_modified = False, previousNotUnderstand = None,
      messageCount = Undefined\<rparr>"

definition Session_create :: "string \<Rightarrow> world \<Rightarrow> (error + session) \<times> world" where
  "Session_create cid w =
     (let instance = \<lparr>doc_id = 0, conversationId = cid, consecutiveNotUnderstand = 0,
                      createdAt = Some (new_Date w), updatedAt = Some (new_Date w)\<rparr>
      in case SessionModel_create instance w of
           (Inl e, w') \<Rightarrow> (Inl e, w')
         | (Inr res, w') \<Rightarrow> (Inr (new_Session res), w'))"

definition not_found :: "string \<Rightarrow> error" where
  "not_found cid = StringError (''Sersation with id '' @ cid @ '' not found.'')"

definition Session_findById :: "string \<Rightarrow> world \<Rightarrow> (error + session) \<times> world" where
  "Session_findById cid w =
     (case SessionModel_findOne cid w of
        (Inl e, w') \<Rightarrow> (Inl e, w')
      | (Inr None, w') \<Rightarrow> (Inl (not_found cid), w')
      | (Inr (Some res), w') \<Rightarrow> (Inr (new_Session res), w'))"

definition Session_findOrCreateById :: "string \<Rightarrow> world \<Rightarrow> (error + session) \<times> world" where
  "Session_findOrCreateById cid w =
     (case SessionModel_findOne cid w of
        (Inl e, w') \<Rightarrow> (Inl e, w')
      | (Inr None, w') \<Rightarrow> Session_create cid w'
      | (Inr (Some res), w') \<Rightarrow> (Inr (new_Session res), w'))"

definition get_conversationId :: "session \<Rightarrow> string" where
  "get_conversationId s = conversationId (document s)"

definition get_consecutiveNotUnderstand :: "session \<Rightarrow> int" where
  "get_consecutiveNotUnderstand s = consecutiveNotUnderstand (document s)"

definition set_consecutiveNotUnderstand :: "int \<Rightarrow> session \<Rightarrow> session" where
  "set_consecutiveNotUnderstand n s =
     s\<lparr>document := (document s)\<lparr>consecutiveNotUnderstand := min n 2\<rparr>,
       document_modified :=
         (document_modified s \<or> min n 2 \<noteq> consecutiveNotUnderstand (document s))\<rparr>"

definition Session_save :: "session \<Rightarrow> world \<Rightarrow> (error + session) \<times> world" where
  "Session_save s w =
     (case document_save (document_modified s) (document s) w of
        (Inl e, w') \<Rightarrow> (Inl e, w')
      | (Inr doc', w') \<Rightarrow> (Inr (s\<lparr>document := doc', document_modified := False\<rparr>), w'))"

section \<open>Chatbot.ts\<close>

subsection \<open>Configuration, message and context\<close>

record message =
  msg_conversationId :: string
  content :: string

record mongo_config =
  hostname :: string
  database :: string
  enabled :: "bool option"

record chatbot_config =
  requestToken :: string
  language :: string
  mongo :: "mongo_config option"

text \<open>
  \<open>IChatbotContext\<close>. The handle to the SDK is opaque to the dispatcher and is left
  out; \<open>session\<close> is \<open>undefined\<close> until the dispatcher sets it.
\<close>

record chatbot_context =
  ctx_message :: message
  ctx_config :: chatbot_config
  ctx_session :: "session option"

subsection \<open>Middlewares\<close>

text \<open>
  A middleware is a function \<open>(ctx, next) => Promise\<close> supplied by the user of the
  library. Its body is a tree of the steps that concern the dispatcher, each awaited
  before the following one:
  \<^item> \<open>Resolve\<close>: the body ends and its promise resolves;
  \<^item> \<open>Reject e\<close>: the middleware fails with \<open>e\<close>;
  \<^item> \<open>Next k\<close>: \<open>await next()\<close>, then \<open>k\<close>; a failure of the rest of the chain
    is not caught;
  \<^item> \<open>Assign n k\<close>: \<open>ctx.session.consecutiveNotUnderstand = n\<close>, then \<open>k\<close>;
  \<^item> \<open>Save k\<close>: \<open>await ctx.session.save()\<close>, then \<open>k\<close>;
  \<^item> \<open>Branch c k1 k2\<close>: a decision on the context.
  The session of the context is the only way to the store that a body has.
\<close>

datatype middleware =
    Resolve
  | Reject error
  | Next middleware
  | Assign int middleware
  | Save middleware
  | Branch "chatbot_context \<Rightarrow> bool" middleware middleware

record chatbot =
  config :: chatbot_config
  middlewarePipeline :: "middleware list"

text \<open>
  \<open>connectToMongo\<close> stores the descriptor in the configuration with \<open>enabled\<close>
  set, and opens the connection; the connection itself is outside the model. The
  constructor calls it when the configuration carries a descriptor.
\<close>

definition connectToMongo :: "mongo_config \<Rightarrow> chatbot \<Rightarrow> chatbot" where
  "connectToMongo c cb = cb\<lparr>config := (config cb)\<lparr>mongo := Some (c\<lparr>enabled := Some True\<rparr>)\<rparr>\<rparr>"

definition new_Chatbot :: "chatbot_config \<Rightarrow> chatbot" where
  "new_Chatbot c =
     (let this = \<lparr>config = c, middlewarePipeline = []\<rparr>
      in case mongo c of
           None \<Rightarrow> this
         | Some m \<Rightarrow> connectToMongo (m\<lparr>enabled := Some True\<rparr>) this)"

definition use :: "middleware \<Rightarrow> chatbot \<Rightarrow> chatbot" where
  "use m cb = cb\<lparr>middlewarePipeline := middlewarePipeline cb @ [m]\<rparr>"

definition isMongoEnabled :: "chatbot \<Rightarrow> bool" where
  "isMongoEnabled cb =
     (case mongo (config cb) of
        None \<Rightarrow> False
      | Some m \<Rightarrow> (case enabled m of Some True \<Rightarrow> True | _ \<Rightarrow> False))"

subsection \<open>onMessage\<close>

text \<open>
  The state of one turn: the context shared by the chain, the index captured by
  \<open>execNextMiddleware\<close>, the world outside, and two records of what happened in the
  turn: every middleware invocation (the index of the middleware and the context it was
  given), and every call of \<open>next\<close> (the index of the middleware that made it).
  The records are not read by the code.
\<close>

record turn =
  ctx :: chatbot_context
  currentMiddlewareIndex :: nat
  outside :: world
  ran :: "(nat \<times> chatbot_context) list"
  called_next :: "nat list"

text \<open>\<open>this.middlewarePipeline[i]\<close> is \<open>undefined\<close> beyond the end of the array.\<close>

definition pipeline_at :: "middleware list \<Rightarrow> nat \<Rightarrow> middleware option" where
  "pipeline_at p i = (if i < length p then Some (p ! i) else None)"

definition undefined_property :: error where
  "undefined_property = TypeError ''Cannot read property of undefined''"

text \<open>
  \<open>run p i m t\<close> runs the body \<open>m\<close> of the middleware at index \<open>i\<close>; the index is
  used for the record of the calls of \<open>next\<close> only.
\<close>

function (sequential)
  execNextMiddleware :: "middleware list \<Rightarrow> turn \<Rightarrow> error option \<times> turn" and
  run :: "middleware list \<Rightarrow> nat \<Rightarrow> middleware \<Rightarrow> turn \<Rightarrow> error option \<times> turn"
where
  "execNextMiddleware p t =
     (case pipeline_at p (currentMiddlewareIndex t) of
        Some m \<Rightarrow>
          run p (currentMiddlewareIndex t) m
            (t\<lparr>currentMiddlewareIndex := currentMiddlewareIndex t + 1,
               ran := ran t @ [(currentMiddlewareIndex t, ctx t)]\<rparr>)
      | None \<Rightarrow> (None, t))"
| "run p i Resolve t = (None, t)"
| "run p i (Reject e) t = (Some e, t)"
| "run p i (Next k) t =
     (case execNextMiddleware p (t\<lparr>called_next := called_next t @ [i]\<rparr>) of
        (Some e, t') \<Rightarrow> (Some e, t')
      | (None, t') \<Rightarrow> run p i k t')"
| "run p i (Assign n k) t =
     (case ctx_session (ctx t) of
        None \<Rightarrow> (Some undefined_property, t)
      | Some s \<Rightarrow>
          run p i k
            (t\<lparr>ctx := (ctx t)\<lparr>ctx_session := Some (set_consecutiveNotUnderstand n s)\<rparr>\<rparr>))"
| "run p i (Save k) t =
     (case ctx_session (ctx t) of
        None \<Rightarrow> (Some undefined_property, t)
      | Some s \<Rightarrow>
          (case Session_save s (outside t) of
             (Inl e, w') \<Rightarrow> (Some e, t\<lparr>outside := w'\<rparr>)
           | (Inr s', w') \<Rightarrow>
               run p i k (t\<lparr>ctx := (ctx t)\<lparr>ctx_session := Some s'\<rparr>, outside := w'\<rparr>)))"
| "run p i (Branch c k1 k2) t = (if c (ctx t) then run p i k1 t else run p i k2 t)"
  by pat_completeness auto

text \<open>
  Lines 184 to 187 of \<open>onMessage\<close>: the snapshot, the reset through the setter and the
  increment. \<open>ctx.session\<close> and \<open>session\<close> are the same object.
\<close>

definition begin_turn :: "session \<Rightarrow> session" where
  "begin_turn session =
     (let s1 = session\<lparr>previousNotUnderstand := Some (get_consecutiveNotUnderstand session)\<rparr>;
          s2 = set_consecutiveNotUnderstand 0 s1
      in s2\<lparr>messageCount := js_increment (messageCount s2)\<rparr>)"

definition new_turn :: "chatbot \<Rightarrow> message \<Rightarrow> world \<Rightarrow> turn" where
  "new_turn cb message w =
     \<lparr>ctx = \<lparr>ctx_message = message, ctx_config = config cb, ctx_session = None\<rparr>,
      currentMiddlewareIndex = 0, outside = w, ran = [], called_next = []\<rparr>"

definition onMessage :: "chatbot \<Rightarrow> message \<Rightarrow> world \<Rightarrow> error option \<times> turn" where
  "onMessage cb message w =
     (let t = new_turn cb message w
      in if isMongoEnabled cb = True then
           (case Session_findOrCreateById (msg_conversationId message) w of
              (Inl e, w1) \<Rightarrow> (Some e, t\<lparr>outside := w1\<rparr>)
            | (Inr session, w1) \<Rightarrow>
                (let s = begin_turn session;
                     t1 = t\<lparr>ctx := (ctx t)\<lparr>ctx_session := Some s\<rparr>\<rparr>
                 in case Session_save s w1 of
                      (Inl e, w2) \<Rightarrow> (Some e, t1\<lparr>outside := w2\<rparr>)
                    | (Inr s', w2) \<Rightarrow>
                        execNextMiddleware (middlewarePipeline cb)
                          (t1\<lparr>ctx := (ctx t1)\<lparr>ctx_session := Some s'\<rparr>, outside := w2\<rparr>)))
         else execNextMiddleware (middlewarePipeline cb) t)"

subsection \<open>botHostingEntrypoint\<close>

record hosting_body =
  body_message :: "string option"
  body_text :: "string option"

record conversation =
  reply :: "string option"
  conversationToken :: string

text \<open>
  The two operations of the SDK that the entry point calls: \<open>connect.handleMessage\<close>,
  which may throw, and \<open>request.converseText\<close>, which rejects or resolves with a
  conversation (or nothing). \<open>handleMessage\<close> is the only way from the entry point to
  \<open>onMessage\<close>.
\<close>

record recast_sdk =
  handleMessage :: "hosting_body \<Rightarrow> error option"
  converseText :: "string \<Rightarrow> string \<Rightarrow> error + conversation option"

datatype callback_data = Result string | Reply string string

text \<open>
  The callback is a function of the caller: given the error and the data it is called with,
  it returns normally (\<open>None\<close>) or throws.
\<close>

type_synonym callback = "error option \<Rightarrow> callback_data option \<Rightarrow> error option"

datatype event =
    HandleMessage hosting_body
  | ConverseText string string
  | Callback "error option" "callback_data option"

text \<open>A string is truthy when it is present and not empty.\<close>

definition truthy :: "string option \<Rightarrow> bool" where
  "truthy v = (case v of None \<Rightarrow> False | Some s \<Rightarrow> s \<noteq> [])"

definition no_text :: error where
  "no_text = StringError ''No text provided''"

text \<open>
  The \<open>try\<close> block: the calls made, in order, and the error thrown out of the block, if
  any. Every call of the callback is inside the block, so an error the callback throws
  leaves the block like any other.
\<close>

definition try_block ::
  "chatbot \<Rightarrow> recast_sdk \<Rightarrow> callback \<Rightarrow> hosting_body \<Rightarrow> event list \<times> error option" where
  "try_block cb sdk callback body =
     (if truthy (body_message body) then
        (case handleMessage sdk body of
           Some err \<Rightarrow> ([HandleMessage body], Some err)
         | None \<Rightarrow>
             ([HandleMessage body, Callback None (Some (Result ''Bot answered :)''))],
              callback None (Some (Result ''Bot answered :)''))))
      else if truthy (body_text body) then
        (let text = (case body_text body of Some s \<Rightarrow> s | None \<Rightarrow> []);
             token = requestToken (config cb)
         in case converseText sdk text token of
              Inl err \<Rightarrow> ([ConverseText text token], Some err)
            | Inr None \<Rightarrow> ([ConverseText text token], Some undefined_property)
            | Inr (Some res) \<Rightarrow>
                (let data =
                       (if truthy (reply res) then
                          Reply (case reply res of Some s \<Rightarrow> s | None \<Rightarrow> [])
                                (conversationToken res)
                        else Reply ''No reply :('' (conversationToken res))
                 in ([ConverseText text token, Callback None (Some data)],
                     callback None (Some data))))
      else ([Callback (Some no_text) None], callback (Some no_text) None))"

text \<open>
  The entry point: the \<open>try\<close> block, and for an error thrown out of it the \<open>catch\<close>
  block, which calls the callback with the error. The result is the calls made, in order,
  and the outcome of the promise: an error the callback throws in the \<open>catch\<close> block
  rejects it.
\<close>

definition botHostingEntrypoint ::
  "chatbot \<Rightarrow> recast_sdk \<Rightarrow> callback \<Rightarrow> hosting_body \<Rightarrow> event list \<times> error option" where
  "botHostingEntrypoint cb sdk callback body =
     (case try_block cb sdk callback body of
        (events, None) \<Rightarrow> (events, None)
      | (events, Some err) \<Rightarrow> (events @ [Callback (Some err) None], callback (Some err) None))"

section \<open>Notions used by the properties\<close>

text \<open>
  The composition the specification gives for find-or-create: \<open>findById\<close>, and on its
  not-found rejection, \<open>create\<close>.
\<close>

definition findOrCreateById_spec :: "string \<Rightarrow> world \<Rightarrow> (error + session) \<times> world" where
  "findOrCreateById_spec cid w =
     (case Session_findById cid w of
        (Inl e, w') \<Rightarrow> (if e = not_found cid then Session_create cid w' else (Inl e, w'))
      | (Inr s, w') \<Rightarrow> (Inr s, w'))"

text \<open>The store answers the coming \<open>n\<close> requests.\<close>

definition answers :: "nat \<Rightarrow> world \<Rightarrow> bool" where
  "answers n w = list_all (\<lambda>f. f = None) (take n (faults w))"

text \<open>The indices of the middlewares invoked in a turn, in the order of invocation.\<close>

definition invoked :: "turn \<Rightarrow> nat list" where
  "invoked t = map fst (ran t)"

text \<open>The largest number of \<open>next()\<close> calls on a path through a middleware body.\<close>

fun next_calls :: "middleware \<Rightarrow> nat" where
  "next_calls Resolve = 0"
| "next_calls (Reject e) = 0"
| "next_calls (Next k) = Suc (next_calls k)"
| "next_calls (Assign n k) = next_calls k"
| "next_calls (Save k) = next_calls k"
| "next_calls (Branch c k1 k2) = max (next_calls k1) (next_calls k2)"

text \<open>The calls of \<open>next\<close> made in a turn by the middlewares at the indices up to \<open>k\<close>.\<close>

definition calls_upto :: "nat \<Rightarrow> turn \<Rightarrow> nat" where
  "calls_upto k t = length (filter (\<lambda>c. c \<le> k) (called_next t))"

text \<open>The calls of the entry point that go to the callback.\<close>

fun is_callback :: "event \<Rightarrow> bool" where
  "is_callback (Callback err data) = True"
| "is_callback (HandleMessage body) = False"
| "is_callback (ConverseText text token) = False"

subsection \<open>Inputs used in the examples\<close>

definition doc_c1 :: session_doc where
  "doc_c1 = \<lparr>doc_id = 1, conversationId = ''c1'', consecutiveNotUnderstand = 2,
             createdAt = Some 5, updatedAt = Some 5\<rparr>"

definition world_c1 :: world where
  "world_c1 = \<lparr>docs = [doc_c1], clock = 9, faults = [], requests = []\<rparr>"

definition empty_world :: world where
  "empty_world = \<lparr>docs = [], clock = 5, faults = [], requests = []\<rparr>"

definition config_plain :: chatbot_config where
  "config_plain = \<lparr>requestToken = ''token'', language = ''en'', mongo = None\<rparr>"

definition config_mongo :: chatbot_config where
  "config_mongo = config_plain\<lparr>mongo := Some \<lparr>hostname = ''localhost'', database = ''bot'', enabled = None\<rparr>\<rparr>"

definition hello :: message where
  "hello = \<lparr>msg_conversationId = ''c1'', content = ''hello''\<rparr>"

text \<open>M1 calls \<open>next\<close> once, M2 does not, M3 would fail if it ran.\<close>

definition three_middlewares :: chatbot where
  "three_middlewares =
     use (Reject (StringError ''unreachable'')) (use Resolve (use (Next Resolve)
       (new_Chatbot config_plain)))"

text \<open>A first middleware with a call of \<open>next\<close> on a path it does not take.\<close>

definition undecided_first :: chatbot where
  "undecided_first =
     use Resolve (use (Branch (\<lambda>c. False) (Next Resolve) Resolve) (new_Chatbot config_plain))"

text \<open>A callback that returns, and one that throws when it is given the missing-text error.\<close>

definition returns :: callback where
  "returns err data = None"

definition throws_on_error :: callback where
  "throws_on_error err data =
     (if err = Some no_text then Some (TypeError ''thrown by the callback'') else None)"

definition silent_sdk :: recast_sdk where
  "silent_sdk = \<lparr>handleMessage = (\<lambda>body. None), converseText = (\<lambda>text token. Inr None)\<rparr>"

definition no_body :: hosting_body where
  "no_body = \<lparr>body_message = None, body_text = Some []\<rparr>"

section \<open>Termination of the chain\<close>

text \<open>
  The index never goes back: every invocation of a middleware advances it, and nothing
  else writes it. With that, a call of \<open>next\<close> after an earlier call returned is
  closer to the end of the pipeline than the earlier one was.
\<close>

lemma index_mono_dom:
  "execNextMiddleware_run_dom (Inl (p, t)) \<Longrightarrow>
     currentMiddlewareIndex t \<le> currentMiddlewareIndex (snd (execNextMiddleware p t))"
  "execNextMiddleware_run_dom (Inr (p, i, m, t)) \<Longrightarrow>
     currentMiddlewareIndex t \<le> currentMiddlewareIndex (snd (run p i m t))"
proof (induction p t and p i m t rule: execNextMiddleware_run.pinduct)
  case (1 p t)
  then show ?case
    by (auto simp: execNextMiddleware.psimps split: option.splits)
next
  case (4 p i k t)
  then show ?case
    by (auto simp: run.psimps split: option.splits prod.splits)
qed (auto simp: run.psimps split: option.splits prod.splits sum.splits)

termination execNextMiddleware
proof (relation "inv_image (less_than <*lex*> less_than)
     (\<lambda>x. case x of
             Inl (p, t) \<Rightarrow> (Suc (length p) - currentMiddlewareIndex t, 0)
           | Inr (p, i, m, t) \<Rightarrow> (Suc (length p) - currentMiddlewareIndex t, Suc (size m)))",
     goal_cases)
  case 1
  show ?case by (intro wf_inv_image wf_lex_prod wf_less_than)
next
  case (2 p t m)
  then show ?case by (auto simp: pipeline_at_def split: if_splits)
next
  case (3 p i k t)
  then show ?case by simp
next
  case (4 p i k t x y)
  have "snd (execNextMiddleware p (t\<lparr>called_next := called_next t @ [i]\<rparr>)) = y"
    using 4(1) by (metis snd_conv)
  with index_mono_dom(1)[OF 4(3)]
  have "currentMiddlewareIndex t \<le> currentMiddlewareIndex y"
    by simp
  then show ?case by auto
next
  case (5 p i n k t s)
  then show ?case by simp
next
  case (6 p i k t s x y b)
  then show ?case by simp
next
  case (7 p i c k1 k2 t)
  then show ?case by simp
next
  case (8 p i c k1 k2 t)
  then show ?case by simp
qed

declare execNextMiddleware.simps [simp del]

section \<open>Properties of the middleware chain\<close>

text \<open>The index and the record of invocations only grow.\<close>

lemma index_mono:
  "currentMiddlewareIndex t \<le> currentMiddlewareIndex (snd (execNextMiddleware p t))"
  "currentMiddlewareIndex t \<le> currentMiddlewareIndex (snd (run p i m t))"
proof (induction p t and p i m t rule: execNextMiddleware_run.induct)
  case (1 p t)
  then show ?case
    by (auto simp: execNextMiddleware.simps split: option.splits)
next
  case (4 p i k t)
  then show ?case
    by (cases "execNextMiddleware p (t\<lparr>called_next := called_next t @ [i]\<rparr>)")
       (auto split: option.splits)
qed (auto split: option.splits prod.splits sum.splits)

lemma ran_grows:
  "\<exists>ys. ran (snd (execNextMiddleware p t)) = ran t @ ys"
  "\<exists>ys. ran (snd (run p i m t)) = ran t @ ys"
proof (induction p t and p i m t rule: execNextMiddleware_run.induct)
  case (1 p t)
  then show ?case
    by (auto simp: execNextMiddleware.simps split: option.splits)
next
  case (4 p i k t)
  then show ?case
    by (cases "execNextMiddleware p (t\<lparr>called_next := called_next t @ [i]\<rparr>)")
       (auto split: option.splits)
qed (auto split: option.splits prod.splits sum.splits)

lemma invoked_in_order:
  "invoked t = [0..<currentMiddlewareIndex t] \<Longrightarrow>
     invoked (snd (execNextMiddleware p t)) = [0..<currentMiddlewareIndex (snd (execNextMiddleware p t))]"
  "invoked t = [0..<currentMiddlewareIndex t] \<Longrightarrow>
     invoked (snd (run p i m t)) = [0..<currentMiddlewareIndex (snd (run p i m t))]"
proof (induction p t and p i m t rule: execNextMiddleware_run.induct)
  case (1 p t)
  then show ?case
    by (auto simp: execNextMiddleware.simps invoked_def split: option.splits)
next
  case (4 p i k t)
  then show ?case
    by (cases "execNextMiddleware p (t\<lparr>called_next := called_next t @ [i]\<rparr>)")
       (auto simp: invoked_def split: option.splits)
qed (auto simp: invoked_def split: option.splits prod.splits sum.splits)

lemma index_bounded:
  "currentMiddlewareIndex t \<le> length p \<Longrightarrow>
     currentMiddlewareIndex (snd (execNextMiddleware p t)) \<le> length p"
  "currentMiddlewareIndex t \<le> length p \<Longrightarrow>
     currentMiddlewareIndex (snd (run p i m t)) \<le> length p"
proof (induction p t and p i m t rule: execNextMiddleware_run.induct)
  case (1 p t)
  then show ?case
    by (auto simp: execNextMiddleware.simps pipeline_at_def split: option.splits if_splits)
next
  case (4 p i k t)
  then show ?case
    by (cases "execNextMiddleware p (t\<lparr>called_next := called_next t @ [i]\<rparr>)")
       (auto split: option.splits)
qed (auto split: option.splits prod.splits sum.splits)


text \<open>
  Every invocation but the dispatcher's own comes from a call of \<open>next\<close>, and as long as
  no middleware after index \<open>k\<close> was invoked, the call was made by a middleware at an
  index up to \<open>k\<close>.
\<close>

lemma invocations_need_calls:
  "min (Suc (currentMiddlewareIndex t)) (k + 2) \<le> Suc (calls_upto k t) \<Longrightarrow>
     min (currentMiddlewareIndex (snd (execNextMiddleware p t))) (k + 2)
       \<le> Suc (calls_upto k (snd (execNextMiddleware p t)))"
  "i < currentMiddlewareIndex t \<Longrightarrow>
     min (currentMiddlewareIndex t) (k + 2) \<le> Suc (calls_upto k t) \<Longrightarrow>
     min (currentMiddlewareIndex (snd (run p i m t))) (k + 2)
       \<le> Suc (calls_upto k (snd (run p i m t)))"
proof (induction p t and p i m t rule: execNextMiddleware_run.induct)
  case (1 p t)
  show ?case
  proof (cases "pipeline_at p (currentMiddlewareIndex t)")
    case None
    with 1(2) show ?thesis
      by (simp add: execNextMiddleware.simps)
  next
    case (Some m)
    let ?t1 = "t\<lparr>currentMiddlewareIndex := currentMiddlewareIndex t + 1,
                  ran := ran t @ [(currentMiddlewareIndex t, ctx t)]\<rparr>"
    have "min (currentMiddlewareIndex ?t1) (k + 2) \<le> Suc (calls_upto k ?t1)"
      using 1(2) by (simp add: calls_upto_def)
    from 1(1)[OF Some _ this] Some show ?thesis
      by (simp add: execNextMiddleware.simps)
  qed
next
  case (4 p i m t)
  let ?t1 = "t\<lparr>called_next := called_next t @ [i]\<rparr>"
  have credit: "min (Suc (currentMiddlewareIndex ?t1)) (k + 2) \<le> Suc (calls_upto k ?t1)"
    using 4(3,4) by (auto simp: calls_upto_def min_def split: if_splits)
  note after = 4(1)[OF credit]
  have later: "i < currentMiddlewareIndex (snd (execNextMiddleware p ?t1))"
    using index_mono(1)[of ?t1 p] 4(3) by simp
  show ?case
  proof (cases "execNextMiddleware p ?t1")
    case (Pair r t')
    show ?thesis
    proof (cases r)
      case None
      with Pair after later 4(2)[of r t'] show ?thesis by simp
    next
      case (Some e)
      with Pair after show ?thesis by simp
    qed
  qed
qed (auto simp: calls_upto_def split: option.splits prod.splits sum.splits)

lemma calls_below_Suc:
  "length (filter (\<lambda>c. c < Suc k) xs) = length (filter (\<lambda>c. c < k) xs) + count_list xs k"
  by (induction xs) (auto simp: less_Suc_eq)

lemma single_calls_bounded:
  "\<forall>i<k. count_list xs i \<le> 1 \<Longrightarrow> length (filter (\<lambda>c. c < k) xs) \<le> k"
proof (induction k)
  case 0
  then show ?case by simp
next
  case (Suc k)
  then have "length (filter (\<lambda>c. c < k) xs) \<le> k" and "count_list xs k \<le> 1"
    by simp_all
  then show ?case by (simp add: calls_below_Suc)
qed

lemma short_circuit:
  assumes credit: "min (currentMiddlewareIndex t) (k + 2) \<le> Suc (calls_upto k t)"
    and silent: "k \<notin> set (called_next t)"
    and single: "\<forall>i<k. count_list (called_next t) i \<le> 1"
  shows "currentMiddlewareIndex t \<le> Suc k"
proof -
  have "filter (\<lambda>c. c \<le> k) (called_next t) = filter (\<lambda>c. c < k) (called_next t)"
    using silent by (intro filter_cong) (auto simp: le_less)
  with single_calls_bounded[OF single] have "calls_upto k t \<le> k"
    by (simp add: calls_upto_def)
  with credit show ?thesis by (simp add: min_def split: if_splits)
qed

lemma first_invocation:
  assumes "p \<noteq> []" "currentMiddlewareIndex t = 0" "ran t = []"
  shows "\<exists>rest. ran (snd (execNextMiddleware p t)) = (0, ctx t) # rest"
proof -
  from assms(1) have at: "pipeline_at p 0 = Some (p ! 0)"
    by (simp add: pipeline_at_def)
  let ?t1 = "t\<lparr>currentMiddlewareIndex := currentMiddlewareIndex t + 1,
                ran := ran t @ [(currentMiddlewareIndex t, ctx t)]\<rparr>"
  have "execNextMiddleware p t = run p 0 (p ! 0) ?t1"
    using at assms(2) by (simp add: execNextMiddleware.simps)
  moreover obtain ys where "ran (snd (run p 0 (p ! 0) ?t1)) = ran ?t1 @ ys"
    using ran_grows(2) by blast
  ultimately show ?thesis
    using assms(2,3) by simp
qed

lemma onMessage_cases:
  "(\<exists>e t. onMessage cb m w = (Some e, t) \<and> ran t = [] \<and> currentMiddlewareIndex t = 0) \<or>
   (\<exists>t0. onMessage cb m w = execNextMiddleware (middlewarePipeline cb) t0 \<and>
         ran t0 = [] \<and> currentMiddlewareIndex t0 = 0 \<and> called_next t0 = [])"
  by (auto simp: onMessage_def new_turn_def Let_def split: prod.splits sum.splits)

lemma onMessage_in_order:
  "invoked (snd (onMessage cb m w)) = [0..<currentMiddlewareIndex (snd (onMessage cb m w))]"
  using onMessage_cases[of cb m w]
proof (elim disjE exE conjE)
  fix e t assume "onMessage cb m w = (Some e, t)" "ran t = []" "currentMiddlewareIndex t = 0"
  then show ?thesis by (simp add: invoked_def)
next
  fix t0 assume a: "onMessage cb m w = execNextMiddleware (middlewarePipeline cb) t0"
    "ran t0 = []" "currentMiddlewareIndex t0 = 0"
  then have "invoked t0 = [0..<currentMiddlewareIndex t0]" by (simp add: invoked_def)
  from invoked_in_order(1)[OF this] a(1) show ?thesis by simp
qed

lemma onMessage_short_circuit:
  assumes "k \<notin> set (called_next (snd (onMessage cb m w)))"
    and "\<forall>i<k. count_list (called_next (snd (onMessage cb m w))) i \<le> 1"
  shows "currentMiddlewareIndex (snd (onMessage cb m w)) \<le> Suc k"
  using onMessage_cases[of cb m w]
proof (elim disjE exE conjE)
  fix e t assume "onMessage cb m w = (Some e, t)" "currentMiddlewareIndex t = 0"
  then show ?thesis by simp
next
  fix t0 assume a: "onMessage cb m w = execNextMiddleware (middlewarePipeline cb) t0"
    "currentMiddlewareIndex t0 = 0" "called_next t0 = []"
  have "min (Suc (currentMiddlewareIndex t0)) (k + 2) \<le> Suc (calls_upto k t0)"
    using a(2,3) by (simp add: calls_upto_def)
  from invocations_need_calls(1)[OF this, of "middlewarePipeline cb"] a(1)
  have "min (currentMiddlewareIndex (snd (onMessage cb m w))) (k + 2)
          \<le> Suc (calls_upto k (snd (onMessage cb m w)))"
    by simp
  from short_circuit[OF this assms] show ?thesis .
qed

section \<open>Properties of the store\<close>

lemmas store_defs = Session_findOrCreateById_def SessionModel_findOne_def request_def
  Session_save_def document_save_def run_pre_save_def Session_create_def SessionModel_create_def
  new_Date_def fresh_id_def validate_def

lemmas example_defs = doc_c1_def world_c1_def empty_world_def config_plain_def config_mongo_def
  hello_def

lemmas session_defs = new_Session_def begin_turn_def get_consecutiveNotUnderstand_def
  set_consecutiveNotUnderstand_def

lemmas chatbot_defs = isMongoEnabled_def use_def new_Chatbot_def connectToMongo_def
  onMessage_def new_turn_def execNextMiddleware.simps pipeline_at_def invoked_def

text \<open>A request that the store answers leaves the documents and the clock as they were.\<close>

lemma request_answered:
  assumes "answers (Suc n) w"
  shows "fst (request r w) = None"
    and "docs (snd (request r w)) = docs w"
    and "clock (snd (request r w)) = clock w"
    and "requests (snd (request r w)) = requests w @ [r]"
    and "answers n (snd (request r w))"
  using assms by (auto simp: request_def answers_def split: list.splits)

lemma findOne_answered:
  assumes "answers (Suc n) w"
  shows "fst (SessionModel_findOne cid w) = Inr (find (\<lambda>d. conversationId d = cid) (docs w))"
    and "docs (snd (SessionModel_findOne cid w)) = docs w"
    and "requests (snd (SessionModel_findOne cid w)) = requests w @ [FindOne cid]"
    and "answers n (snd (SessionModel_findOne cid w))"
  using request_answered[OF assms, of "FindOne cid"]
  by (auto simp: SessionModel_findOne_def split: prod.splits option.splits)

lemma create_answered:
  assumes "answers (Suc n) w" "cid \<noteq> []"
  shows "\<exists>s. fst (Session_create cid w) = Inr s \<and> get_conversationId s = cid \<and>
             docs (snd (Session_create cid w)) = docs w @ [document s]"
    and "requests (snd (Session_create cid w)) = requests w @ [Create cid]"
    and "answers n (snd (Session_create cid w))"
  using request_answered[OF assms(1), of "Create cid"] assms(2)
  by (auto simp: Session_create_def SessionModel_create_def Let_def new_Session_def
                 get_conversationId_def run_pre_save_def answers_def validate_def
           split: prod.splits option.splits)

lemma create_invalid:
  "Session_create [] w = (Inl missing_conversationId, w)"
  by (simp add: Session_create_def SessionModel_create_def validate_def
                missing_conversationId_def)

lemma findOrCreateById_refines:
  "Session_findOrCreateById cid w = findOrCreateById_spec cid w"
  by (auto simp: Session_findOrCreateById_def findOrCreateById_spec_def Session_findById_def
                 SessionModel_findOne_def not_found_def
           split: prod.splits sum.splits option.splits)

lemma findOrCreateById_existing:
  assumes "find (\<lambda>d. conversationId d = cid) (docs w) = Some d" "answers (Suc n) w"
  shows "fst (Session_findOrCreateById cid w) = Inr (new_Session d)"
    and "docs (snd (Session_findOrCreateById cid w)) = docs w"
    and "requests (snd (Session_findOrCreateById cid w)) = requests w @ [FindOne cid]"
  using findOne_answered[OF assms(2), of cid] assms(1)
  by (auto simp: Session_findOrCreateById_def split: prod.splits sum.splits option.splits)

lemma findOrCreateById_missing:
  assumes "find (\<lambda>d. conversationId d = cid) (docs w) = None" "answers (Suc n) w"
  shows "Session_findOrCreateById cid w = Session_create cid (snd (SessionModel_findOne cid w))"
proof -
  have "fst (SessionModel_findOne cid w) = Inr None"
    using findOne_answered(1)[OF assms(2), of cid] assms(1) by simp
  then show ?thesis
    by (cases "SessionModel_findOne cid w") (simp add: Session_findOrCreateById_def)
qed

lemma findOrCreateById_new:
  assumes "find (\<lambda>d. conversationId d = cid) (docs w) = None" "answers (Suc (Suc n)) w"
    and "cid \<noteq> []"
  shows "\<exists>s. fst (Session_findOrCreateById cid w) = Inr s \<and> get_conversationId s = cid \<and>
             s = new_Session (document s) \<and>
             docs (snd (Session_findOrCreateById cid w)) = docs w @ [document s]"
    and "requests (snd (Session_findOrCreateById cid w)) = requests w @ [FindOne cid, Create cid]"
    and "answers n (snd (Session_findOrCreateById cid w))"
proof -
  let ?w1 = "snd (SessionModel_findOne cid w)"
  have eq: "Session_findOrCreateById cid w = Session_create cid ?w1"
    by (rule findOrCreateById_missing[OF assms(1,2)])
  have a1: "answers (Suc n) ?w1" and d1: "docs ?w1 = docs w"
    and r1: "requests ?w1 = requests w @ [FindOne cid]"
    using findOne_answered[OF assms(2), of cid] by simp_all
  from create_answered(1)[OF a1 assms(3)] obtain s where
    s: "fst (Session_create cid ?w1) = Inr s" "get_conversationId s = cid"
       "docs (snd (Session_create cid ?w1)) = docs ?w1 @ [document s]"
    by blast
  have "s = new_Session (document s)"
    using s(1)
    by (auto simp: Session_create_def SessionModel_create_def Let_def new_Session_def
             split: prod.splits option.splits sum.splits)
  with s d1 eq
  show "\<exists>s. fst (Session_findOrCreateById cid w) = Inr s \<and> get_conversationId s = cid \<and>
             s = new_Session (document s) \<and>
             docs (snd (Session_findOrCreateById cid w)) = docs w @ [document s]"
    by auto
  show "requests (snd (Session_findOrCreateById cid w)) = requests w @ [FindOne cid, Create cid]"
    using create_answered(2)[OF a1 assms(3)] r1 eq by simp
  show "answers n (snd (Session_findOrCreateById cid w))"
    using create_answered(3)[OF a1 assms(3)] eq by simp
qed

lemma findOrCreateById_invalid:
  assumes "find (\<lambda>d. conversationId d = []) (docs w) = None" "answers (Suc n) w"
  shows "fst (Session_findOrCreateById [] w) = Inl missing_conversationId"
    and "docs (snd (Session_findOrCreateById [] w)) = docs w"
    and "requests (snd (Session_findOrCreateById [] w)) = requests w @ [FindOne []]"
  using findOrCreateById_missing[OF assms] findOne_answered[OF assms(2), of "[]"]
  by (simp_all add: create_invalid)

lemma find_appended:
  "find P xs = None \<Longrightarrow> P x \<Longrightarrow> find P (xs @ [x]) = Some x"
  by (induction xs) (auto split: if_splits)

section \<open>The setter of consecutiveNotUnderstand\<close>

text \<open>
  Claim C1, as amended. For every integer \<open>n\<close>, assigning
  \<open>consecutiveNotUnderstand = n\<close> stores \<open>min n 2\<close>, so the stored value is at most 2.
  The setter has no lower bound: for \<open>n \<ge> 0\<close> the stored value lies in [0, 2], and a
  negative \<open>n\<close> is stored as it is.
\<close>

theorem C1_setter_caps_at_two:
  "get_consecutiveNotUnderstand (set_consecutiveNotUnderstand n s) = min n 2 \<and>
   get_consecutiveNotUnderstand (set_consecutiveNotUnderstand n s) \<le> 2 \<and>
   (0 \<le> n \<longrightarrow> 0 \<le> get_consecutiveNotUnderstand (set_consecutiveNotUnderstand n s)) \<and>
   (n < 0 \<longrightarrow> get_consecutiveNotUnderstand (set_consecutiveNotUnderstand n s) = n)"
  by (simp add: get_consecutiveNotUnderstand_def set_consecutiveNotUnderstand_def)

theorem C1_setter_caps_at_two_witness:
  "(0::int) \<le> 7 \<and>
   get_consecutiveNotUnderstand (set_consecutiveNotUnderstand 7 (new_Session doc_c1)) = 2 \<and>
   (-3::int) < 0 \<and>
   get_consecutiveNotUnderstand (set_consecutiveNotUnderstand (-3) (new_Session doc_c1)) = -3"
  using C1_setter_caps_at_two[of 7 "new_Session doc_c1"]
        C1_setter_caps_at_two[of "-3" "new_Session doc_c1"]
  by simp

text \<open>
  Claim C1 as stated fails: after assigning \<open>-1\<close> the stored value is \<open>-1\<close>, outside
  [0, 2].
\<close>

theorem C1_negative_stored_counterexample:
  "\<not> (0 \<le> get_consecutiveNotUnderstand (set_consecutiveNotUnderstand (-1) (new_Session doc_c1)) \<and>
       get_consecutiveNotUnderstand (set_consecutiveNotUnderstand (-1) (new_Session doc_c1)) \<le> 2)"
  by (simp add: get_consecutiveNotUnderstand_def set_consecutiveNotUnderstand_def)

section \<open>The dispatcher's update of the session\<close>

text \<open>
  Claim C2. After a successful \<open>onMessage\<close> with persistence enabled, \<open>messageCount\<close>
  should be one more than before and be persisted. The code evaluated on a store that holds
  one session for \<open>c1\<close>: \<open>findOrCreateById\<close> wraps the stored document in a new
  Session whose \<open>messageCount\<close> is \<open>undefined\<close>; \<open>session.messageCount++\<close>
  makes it \<open>NaN\<close>, not a count; the document written to the store has the reset
  \<open>consecutiveNotUnderstand\<close> and nothing else new, because the schema has no
  \<open>messageCount\<close>.
\<close>

theorem C2_messageCount_becomes_NaN:
  "isMongoEnabled (new_Chatbot config_mongo) \<and>
   fst (onMessage (new_Chatbot config_mongo) hello world_c1) = None \<and>
   fst (Session_findOrCreateById ''c1'' world_c1) = Inr (new_Session doc_c1) \<and>
   messageCount (new_Session doc_c1) = Undefined \<and>
   map_option messageCount (ctx_session (ctx (snd (onMessage (new_Chatbot config_mongo) hello world_c1))))
     = Some NaN \<and>
   docs (outside (snd (onMessage (new_Chatbot config_mongo) hello world_c1)))
     = [doc_c1\<lparr>consecutiveNotUnderstand := 0\<rparr>]"
  by (simp add: chatbot_defs store_defs session_defs example_defs Let_def)

text \<open>
  Claim C3. With persistence enabled, when the dispatcher's save of the updated session
  fails with \<open>e\<close>, \<open>onMessage\<close> fails with \<open>e\<close> and no middleware has run.
\<close>

theorem C3_persist_failure_aborts_turn:
  assumes "isMongoEnabled cb"
    and "Session_findOrCreateById (msg_conversationId m) w = (Inr s, w1)"
    and "Session_save (begin_turn s) w1 = (Inl e, w2)"
  shows "fst (onMessage cb m w) = Some e \<and> ran (snd (onMessage cb m w)) = [] \<and>
         currentMiddlewareIndex (snd (onMessage cb m w)) = 0"
  using assms by (simp add: onMessage_def new_turn_def Let_def)

theorem C3_persist_failure_aborts_turn_witness:
  "isMongoEnabled (use Resolve (new_Chatbot config_mongo)) \<and>
   fst (onMessage (use Resolve (new_Chatbot config_mongo)) hello
          (world_c1\<lparr>faults := [None, Some ''write failed'']\<rparr>)) = Some (BackendError ''write failed'') \<and>
   ran (snd (onMessage (use Resolve (new_Chatbot config_mongo)) hello
          (world_c1\<lparr>faults := [None, Some ''write failed'']\<rparr>))) = []"
proof -
  let ?cb = "use Resolve (new_Chatbot config_mongo)"
  let ?w = "world_c1\<lparr>faults := [None, Some ''write failed'']\<rparr>"
  let ?w1 = "world_c1\<lparr>faults := [Some ''write failed''], requests := [FindOne ''c1'']\<rparr>"
  let ?w2 = "world_c1\<lparr>faults := [], requests := [FindOne ''c1'', SaveDocument 1]\<rparr>"
  have h1: "isMongoEnabled ?cb"
    by (simp add: isMongoEnabled_def use_def new_Chatbot_def connectToMongo_def example_defs)
  have h2: "Session_findOrCreateById (msg_conversationId hello) ?w = (Inr (new_Session doc_c1), ?w1)"
    by (simp add: store_defs example_defs)
  have h3: "Session_save (begin_turn (new_Session doc_c1)) ?w1 = (Inl (BackendError ''write failed''), ?w2)"
    by (simp add: store_defs example_defs session_defs)
  from C3_persist_failure_aborts_turn[OF h1 h2 h3] h1 show ?thesis by simp
qed

text \<open>
  Claim C4. With persistence enabled, the context given to the first middleware holds a
  session whose \<open>previousNotUnderstand\<close> is the value \<open>consecutiveNotUnderstand\<close>
  had when the session was resolved (the value of the stored document, when there is one)
  and whose \<open>consecutiveNotUnderstand\<close> is 0.
\<close>

theorem C4_first_middleware_sees_snapshot:
  assumes "isMongoEnabled cb"
    and "Session_findOrCreateById (msg_conversationId m) w = (Inr s, w1)"
    and "Session_save (begin_turn s) w1 = (Inr s', w2)"
    and "middlewarePipeline cb \<noteq> []"
  shows "\<exists>c rest seen. ran (snd (onMessage cb m w)) = (0, c) # rest \<and>
           ctx_session c = Some seen \<and>
           previousNotUnderstand seen = Some (get_consecutiveNotUnderstand s) \<and>
           get_consecutiveNotUnderstand seen = 0 \<and>
           (\<forall>d. find (\<lambda>d. conversationId d = msg_conversationId m) (docs w) = Some d \<longrightarrow>
                get_consecutiveNotUnderstand s = consecutiveNotUnderstand d)"
proof -
  let ?t = "new_turn cb m w"
  let ?t1 = "?t\<lparr>ctx := (ctx ?t)\<lparr>ctx_session := Some (begin_turn s)\<rparr>\<rparr>"
  let ?t2 = "?t1\<lparr>ctx := (ctx ?t1)\<lparr>ctx_session := Some s'\<rparr>, outside := w2\<rparr>"
  have run: "onMessage cb m w = execNextMiddleware (middlewarePipeline cb) ?t2"
    using assms(1-3) by (simp add: onMessage_def Let_def)
  have "currentMiddlewareIndex ?t2 = 0" "ran ?t2 = []"
    by (simp_all add: new_turn_def)
  from first_invocation[OF assms(4) this] obtain rest
    where rest: "ran (snd (onMessage cb m w)) = (0, ctx ?t2) # rest"
    using run by auto
  have s': "s' = (begin_turn s)\<lparr>document_modified := False\<rparr>"
    using assms(3)
    by (auto simp: Session_save_def document_save_def run_pre_save_def Let_def
             split: prod.splits option.splits sum.splits if_splits)
  have seen: "ctx_session (ctx ?t2) = Some s'" by simp
  have prev: "previousNotUnderstand s' = Some (get_consecutiveNotUnderstand s)"
    and zero: "get_consecutiveNotUnderstand s' = 0"
    unfolding s' by (simp_all add: session_defs Let_def)
  have stored: "\<forall>d. find (\<lambda>d. conversationId d = msg_conversationId m) (docs w) = Some d \<longrightarrow>
                get_consecutiveNotUnderstand s = consecutiveNotUnderstand d"
    using assms(2)
    by (auto simp: store_defs session_defs split: prod.splits option.splits list.splits)
  from rest seen prev zero stored show ?thesis by blast
qed

text \<open>The stored value 2 is seen as \<open>previousNotUnderstand = 2\<close> next to a counter of 0.\<close>

theorem C4_first_middleware_sees_snapshot_witness:
  "isMongoEnabled (use Resolve (new_Chatbot config_mongo)) \<and>
   consecutiveNotUnderstand doc_c1 = 2 \<and>
   (\<exists>c rest seen.
      ran (snd (onMessage (use Resolve (new_Chatbot config_mongo)) hello world_c1)) = (0, c) # rest \<and>
      ctx_session c = Some seen \<and> previousNotUnderstand seen = Some 2 \<and>
      get_consecutiveNotUnderstand seen = 0)"
proof -
  let ?cb = "use Resolve (new_Chatbot config_mongo)"
  let ?w1 = "world_c1\<lparr>requests := [FindOne ''c1'']\<rparr>"
  let ?w2 = "world_c1\<lparr>docs := [document (begin_turn (new_Session doc_c1))],
                       requests := [FindOne ''c1'', SaveDocument 1]\<rparr>"
  have h1: "isMongoEnabled ?cb"
    by (simp add: isMongoEnabled_def use_def new_Chatbot_def connectToMongo_def example_defs)
  have h2: "Session_findOrCreateById (msg_conversationId hello) world_c1 = (Inr (new_Session doc_c1), ?w1)"
    by (simp add: store_defs example_defs)
  have h3: "Session_save (begin_turn (new_Session doc_c1)) ?w1
              = (Inr ((begin_turn (new_Session doc_c1))\<lparr>document_modified := False\<rparr>), ?w2)"
    by (simp add: store_defs example_defs session_defs Let_def)
  have h4: "middlewarePipeline ?cb \<noteq> []"
    by (simp add: use_def)
  have two: "get_consecutiveNotUnderstand (new_Session doc_c1) = 2" "consecutiveNotUnderstand doc_c1 = 2"
    by (simp_all add: session_defs example_defs)
  from C4_first_middleware_sees_snapshot[OF h1 h2 h3 h4] h1 two show ?thesis
    by auto
qed

section \<open>Find or create\<close>

text \<open>
  Claim C5, as amended. For every conversationId, \<open>findOrCreateById\<close> is
  \<open>findById\<close> with the not-found rejection recovered by \<open>create\<close>. When the store
  answers: an existing record is returned and nothing is added; with no record and an id
  that is not empty, one is created, and two calls in a row for a new id return the same
  session, with one \<open>Create\<close> request and one added document in all; with no record
  and the empty id, which the schema does not accept, the call is rejected with the
  validation error and nothing is created.
\<close>

theorem C5_findOrCreateById_finds_or_creates:
  "Session_findOrCreateById cid w = findOrCreateById_spec cid w \<and>
   (\<forall>d. find (\<lambda>d. conversationId d = cid) (docs w) = Some d \<and> answers 1 w \<longrightarrow>
        fst (Session_findOrCreateById cid w) = Inr (new_Session d) \<and>
        docs (snd (Session_findOrCreateById cid w)) = docs w) \<and>
   (cid \<noteq> [] \<and> find (\<lambda>d. conversationId d = cid) (docs w) = None \<and> answers 2 w \<longrightarrow>
      (\<exists>s. fst (Session_findOrCreateById cid w) = Inr s \<and> get_conversationId s = cid \<and>
           docs (snd (Session_findOrCreateById cid w)) = docs w @ [document s])) \<and>
   (cid \<noteq> [] \<and> find (\<lambda>d. conversationId d = cid) (docs w) = None \<and> answers 3 w \<longrightarrow>
      (\<exists>s. fst (Session_findOrCreateById cid w) = Inr s \<and>
           fst (Session_findOrCreateById cid (snd (Session_findOrCreateById cid w))) = Inr s \<and>
           docs (snd (Session_findOrCreateById cid (snd (Session_findOrCreateById cid w))))
             = docs w @ [document s] \<and>
           requests (snd (Session_findOrCreateById cid (snd (Session_findOrCreateById cid w))))
             = requests w @ [FindOne cid, Create cid, FindOne cid])) \<and>
   (cid = [] \<and> find (\<lambda>d. conversationId d = cid) (docs w) = None \<and> answers 1 w \<longrightarrow>
      fst (Session_findOrCreateById cid w) = Inl missing_conversationId \<and>
      docs (snd (Session_findOrCreateById cid w)) = docs w \<and>
      requests (snd (Session_findOrCreateById cid w)) = requests w @ [FindOne cid])"
proof (intro conjI allI impI)
  show "Session_findOrCreateById cid w = findOrCreateById_spec cid w"
    by (rule findOrCreateById_refines)
next
  fix d assume "find (\<lambda>d. conversationId d = cid) (docs w) = Some d \<and> answers 1 w"
  then have f: "find (\<lambda>d. conversationId d = cid) (docs w) = Some d" and a: "answers (Suc 0) w"
    by simp_all
  from findOrCreateById_existing(1)[OF f a]
  show "fst (Session_findOrCreateById cid w) = Inr (new_Session d)" .
  from findOrCreateById_existing(2)[OF f a]
  show "docs (snd (Session_findOrCreateById cid w)) = docs w" .
next
  assume "cid \<noteq> [] \<and> find (\<lambda>d. conversationId d = cid) (docs w) = None \<and> answers 2 w"
  then have f: "find (\<lambda>d. conversationId d = cid) (docs w) = None"
    and a: "answers (Suc (Suc 0)) w" and c: "cid \<noteq> []"
    by (simp_all add: numeral_2_eq_2)
  from findOrCreateById_new(1)[OF f a c]
  show "\<exists>s. fst (Session_findOrCreateById cid w) = Inr s \<and> get_conversationId s = cid \<and>
           docs (snd (Session_findOrCreateById cid w)) = docs w @ [document s]"
    by blast
next
  assume "cid \<noteq> [] \<and> find (\<lambda>d. conversationId d = cid) (docs w) = None \<and> answers 3 w"
  then have f: "find (\<lambda>d. conversationId d = cid) (docs w) = None"
    and a: "answers (Suc (Suc (Suc 0))) w" and c: "cid \<noteq> []"
    by (simp_all add: numeral_3_eq_3)
  let ?w1 = "snd (Session_findOrCreateById cid w)"
  from findOrCreateById_new(1)[OF f a c] obtain s where
    s: "fst (Session_findOrCreateById cid w) = Inr s" "get_conversationId s = cid"
       "s = new_Session (document s)" "docs ?w1 = docs w @ [document s]"
    by blast
  have r1: "requests ?w1 = requests w @ [FindOne cid, Create cid]"
    and a1: "answers (Suc 0) ?w1"
    using findOrCreateById_new(2,3)[OF f a c] by simp_all
  have "find (\<lambda>d. conversationId d = cid) (docs ?w1) = Some (document s)"
    using s(2,4) f by (simp add: find_appended get_conversationId_def)
  from findOrCreateById_existing[OF this a1] s(3,4) r1
  have "fst (Session_findOrCreateById cid ?w1) = Inr s"
    "docs (snd (Session_findOrCreateById cid ?w1)) = docs w @ [document s]"
    "requests (snd (Session_findOrCreateById cid ?w1)) = requests w @ [FindOne cid, Create cid, FindOne cid]"
    by simp_all
  with s(1)
  show "\<exists>s. fst (Session_findOrCreateById cid w) = Inr s \<and>
           fst (Session_findOrCreateById cid (snd (Session_findOrCreateById cid w))) = Inr s \<and>
           docs (snd (Session_findOrCreateById cid (snd (Session_findOrCreateById cid w))))
             = docs w @ [document s] \<and>
           requests (snd (Session_findOrCreateById cid (snd (Session_findOrCreateById cid w))))
             = requests w @ [FindOne cid, Create cid, FindOne cid]"
    by blast
next
  assume e: "cid = [] \<and> find (\<lambda>d. conversationId d = cid) (docs w) = None \<and> answers 1 w"
  then have f: "find (\<lambda>d. conversationId d = []) (docs w) = None" and a: "answers (Suc 0) w"
    by auto
  from findOrCreateById_invalid[OF f a] e
  show "fst (Session_findOrCreateById cid w) = Inl missing_conversationId"
    "docs (snd (Session_findOrCreateById cid w)) = docs w"
    "requests (snd (Session_findOrCreateById cid w)) = requests w @ [FindOne cid]"
    by simp_all
qed

theorem C5_findOrCreateById_finds_or_creates_witness:
  "''new'' \<noteq> [] \<and>
   find (\<lambda>d. conversationId d = ''new'') (docs world_c1) = None \<and> answers 3 world_c1 \<and>
   (\<exists>s. fst (Session_findOrCreateById ''new'' world_c1) = Inr s \<and>
        fst (Session_findOrCreateById ''new'' (snd (Session_findOrCreateById ''new'' world_c1))) = Inr s \<and>
        docs (snd (Session_findOrCreateById ''new'' (snd (Session_findOrCreateById ''new'' world_c1))))
          = [doc_c1, document s] \<and>
        requests (snd (Session_findOrCreateById ''new'' (snd (Session_findOrCreateById ''new'' world_c1))))
          = [FindOne ''new'', Create ''new'', FindOne ''new'']) \<and>
   find (\<lambda>d. conversationId d = ''c1'') (docs world_c1) = Some doc_c1 \<and>
   fst (Session_findOrCreateById ''c1'' world_c1) = Inr (new_Session doc_c1) \<and>
   docs (snd (Session_findOrCreateById ''c1'' world_c1)) = docs world_c1 \<and>
   find (\<lambda>d. conversationId d = []) (docs world_c1) = None \<and>
   fst (Session_findOrCreateById [] world_c1) = Inl missing_conversationId \<and>
   docs (snd (Session_findOrCreateById [] world_c1)) = docs world_c1"
proof -
  have f: "find (\<lambda>d. conversationId d = ''new'') (docs world_c1) = None"
    and a: "answers 3 world_c1" and a1: "answers 1 world_c1"
    and g: "find (\<lambda>d. conversationId d = ''c1'') (docs world_c1) = Some doc_c1"
    and h: "find (\<lambda>d. conversationId d = []) (docs world_c1) = None"
    by (simp_all add: world_c1_def doc_c1_def answers_def)
  have d: "docs world_c1 = [doc_c1]" "requests world_c1 = []"
    by (simp_all add: world_c1_def)
  have n: "''new'' \<noteq> []" by simp
  have new: "\<exists>s. fst (Session_findOrCreateById ''new'' world_c1) = Inr s \<and>
        fst (Session_findOrCreateById ''new'' (snd (Session_findOrCreateById ''new'' world_c1))) = Inr s \<and>
        docs (snd (Session_findOrCreateById ''new'' (snd (Session_findOrCreateById ''new'' world_c1))))
          = docs world_c1 @ [document s] \<and>
        requests (snd (Session_findOrCreateById ''new'' (snd (Session_findOrCreateById ''new'' world_c1))))
          = requests world_c1 @ [FindOne ''new'', Create ''new'', FindOne ''new'']"
    using C5_findOrCreateById_finds_or_creates[of "''new''" world_c1] f a n by blast
  have old: "fst (Session_findOrCreateById ''c1'' world_c1) = Inr (new_Session doc_c1) \<and>
        docs (snd (Session_findOrCreateById ''c1'' world_c1)) = docs world_c1"
    using C5_findOrCreateById_finds_or_creates[of "''c1''" world_c1] g a1 by blast
  have none: "fst (Session_findOrCreateById [] world_c1) = Inl missing_conversationId \<and>
        docs (snd (Session_findOrCreateById [] world_c1)) = docs world_c1"
    using C5_findOrCreateById_finds_or_creates[of "[]" world_c1] h a1 by blast
  from new old none f a g h show ?thesis unfolding d by simp
qed

text \<open>
  Claim C5 as stated fails for the empty conversationId: with no record for it and a store
  that answers, no session is returned and none is created, on the first call and on the
  second.
\<close>

theorem C5_empty_id_is_not_created_counterexample:
  "find (\<lambda>d. conversationId d = []) (docs empty_world) = None \<and> answers 3 empty_world \<and>
   fst (Session_findOrCreateById [] empty_world) = Inl missing_conversationId \<and>
   docs (snd (Session_findOrCreateById [] empty_world)) = [] \<and>
   fst (Session_findOrCreateById [] (snd (Session_findOrCreateById [] empty_world)))
     = Inl missing_conversationId"
  by (simp add: store_defs empty_world_def answers_def missing_conversationId_def)

section \<open>Order and short circuit of the chain\<close>

text \<open>
  Claim C6, as amended. In every turn the middlewares invoked are those at the indices
  0, 1, ..., in that order, with no gap. When in the turn the middleware at index \<open>k\<close>
  makes no call of \<open>next\<close> and no middleware before it makes more than one, no
  middleware after index \<open>k\<close> runs. With M1 calling \<open>next\<close> once, M2 not calling it
  and any M3, a turn that completes has run M1 and M2 once each and has not run M3.
\<close>

theorem C6_registration_order_and_short_circuit:
  "invoked (snd (onMessage cb m w)) = [0..<currentMiddlewareIndex (snd (onMessage cb m w))] \<and>
   currentMiddlewareIndex (snd (onMessage cb m w)) \<le> length (middlewarePipeline cb) \<and>
   (\<forall>k. k \<notin> set (called_next (snd (onMessage cb m w))) \<and>
        (\<forall>i<k. count_list (called_next (snd (onMessage cb m w))) i \<le> 1) \<longrightarrow>
        (\<forall>j. j \<in> set (invoked (snd (onMessage cb m w))) \<longrightarrow> j \<le> k)) \<and>
   (middlewarePipeline cb = [Next Resolve, Resolve, m3] \<and> fst (onMessage cb m w) = None \<longrightarrow>
      invoked (snd (onMessage cb m w)) = [0, 1])"
proof (intro conjI allI impI)
  show "invoked (snd (onMessage cb m w)) = [0..<currentMiddlewareIndex (snd (onMessage cb m w))]"
    by (rule onMessage_in_order)
  show "currentMiddlewareIndex (snd (onMessage cb m w)) \<le> length (middlewarePipeline cb)"
    using onMessage_cases[of cb m w] index_bounded(1)[of _ "middlewarePipeline cb"]
    by (elim disjE exE conjE) simp_all
next
  fix k j
  assume k: "k \<notin> set (called_next (snd (onMessage cb m w))) \<and>
        (\<forall>i<k. count_list (called_next (snd (onMessage cb m w))) i \<le> 1)"
    and j: "j \<in> set (invoked (snd (onMessage cb m w)))"
  from k have "currentMiddlewareIndex (snd (onMessage cb m w)) \<le> Suc k"
    by (intro onMessage_short_circuit) simp_all
  moreover from j have "j < currentMiddlewareIndex (snd (onMessage cb m w))"
    by (simp add: onMessage_in_order)
  ultimately show "j \<le> k" by simp
next
  assume a: "middlewarePipeline cb = [Next Resolve, Resolve, m3] \<and> fst (onMessage cb m w) = None"
  from onMessage_cases[of cb m w] show "invoked (snd (onMessage cb m w)) = [0, 1]"
  proof (elim disjE exE conjE)
    fix e t assume "onMessage cb m w = (Some e, t)"
    with a show ?thesis by simp
  next
    fix t0 assume b: "onMessage cb m w = execNextMiddleware (middlewarePipeline cb) t0"
      "ran t0 = []" "currentMiddlewareIndex t0 = 0"
    then show ?thesis using a
      by (simp add: execNextMiddleware.simps pipeline_at_def invoked_def)
  qed
qed

text \<open>
  The example of the claim, and a first middleware that has a call of \<open>next\<close> in its
  body but does not reach it: the second middleware does not run.
\<close>

theorem C6_registration_order_and_short_circuit_witness:
  "called_next (snd (onMessage three_middlewares hello empty_world)) = [0] \<and>
   fst (onMessage three_middlewares hello empty_world) = None \<and>
   invoked (snd (onMessage three_middlewares hello empty_world)) = [0, 1] \<and>
   list_all (\<lambda>j. j \<le> 1) (invoked (snd (onMessage three_middlewares hello empty_world))) \<and>
   called_next (snd (onMessage undecided_first hello empty_world)) = [] \<and>
   invoked (snd (onMessage undecided_first hello empty_world)) = [0] \<and>
   list_all (\<lambda>j. j \<le> 0) (invoked (snd (onMessage undecided_first hello empty_world)))"
proof -
  let ?t = "snd (onMessage three_middlewares hello empty_world)"
  let ?u = "snd (onMessage undecided_first hello empty_world)"
  note three = C6_registration_order_and_short_circuit
                 [of three_middlewares hello empty_world "Reject (StringError ''unreachable'')"]
  note undecided = C6_registration_order_and_short_circuit
                 [of undecided_first hello empty_world Resolve]
  have p: "middlewarePipeline three_middlewares
             = [Next Resolve, Resolve, Reject (StringError ''unreachable'')]"
    by (simp add: three_middlewares_def use_def new_Chatbot_def example_defs)
  have ok: "fst (onMessage three_middlewares hello empty_world) = None"
    and calls: "called_next ?t = [0]"
    by (simp_all add: three_middlewares_def chatbot_defs example_defs)
  have example: "middlewarePipeline three_middlewares
             = [Next Resolve, Resolve, Reject (StringError ''unreachable'')] \<and>
        fst (onMessage three_middlewares hello empty_world) = None \<longrightarrow> invoked ?t = [0, 1]"
    using three by (elim conjE)
  with p ok have two: "invoked ?t = [0, 1]" by blast
  have "\<forall>k. k \<notin> set (called_next ?t) \<and> (\<forall>i<k. count_list (called_next ?t) i \<le> 1) \<longrightarrow>
        (\<forall>j. j \<in> set (invoked ?t) \<longrightarrow> j \<le> k)"
    using three by (elim conjE)
  moreover have "1 \<notin> set (called_next ?t) \<and> (\<forall>i<1. count_list (called_next ?t) i \<le> 1)"
    unfolding calls by simp
  ultimately have "\<forall>j. j \<in> set (invoked ?t) \<longrightarrow> j \<le> 1"
    by blast
  then have stopped: "list_all (\<lambda>j. j \<le> 1) (invoked ?t)"
    by (simp add: list_all_iff)
  have none: "called_next ?u = []"
    by (simp add: undecided_first_def chatbot_defs example_defs)
  have blocking: "\<forall>k. k \<notin> set (called_next ?u) \<and> (\<forall>i<k. count_list (called_next ?u) i \<le> 1) \<longrightarrow>
        (\<forall>j. j \<in> set (invoked ?u) \<longrightarrow> j \<le> k)"
    using undecided by (elim conjE)
  have "0 \<notin> set (called_next ?u) \<and> (\<forall>i<0. count_list (called_next ?u) i \<le> 1)"
    unfolding none by simp
  with blocking have "\<forall>j. j \<in> set (invoked ?u) \<longrightarrow> j \<le> 0"
    by blast
  then have bounded: "list_all (\<lambda>j. j \<le> 0) (invoked ?u)"
    by (simp add: list_all_iff)
  have one: "invoked ?u = [0]"
    by (simp add: undecided_first_def chatbot_defs example_defs)
  from calls ok two stopped none one bounded show ?thesis by simp
qed

text \<open>
  Claim C6 as stated fails: when M1 calls \<open>next\<close> twice, the second call starts M3,
  although M2, registered before M3, never calls \<open>next\<close>.
\<close>

theorem C6_second_next_runs_later_middleware_counterexample:
  "next_calls (middlewarePipeline (use Resolve (use Resolve (use (Next (Next Resolve))
       (new_Chatbot config_plain)))) ! 1) = 0 \<and>
   called_next (snd (onMessage (use Resolve (use Resolve (use (Next (Next Resolve))
       (new_Chatbot config_plain)))) hello empty_world)) = [0, 0] \<and>
   invoked (snd (onMessage (use Resolve (use Resolve (use (Next (Next Resolve))
       (new_Chatbot config_plain)))) hello empty_world)) = [0, 1, 2]"
  by (simp add: chatbot_defs example_defs)

text \<open>
  Claim C7. In every turn no middleware of the pipeline is invoked more than once, however
  often a middleware calls \<open>next\<close>.
\<close>

theorem C7_each_middleware_at_most_once:
  "distinct (invoked (snd (onMessage cb m w)))"
  by (simp add: onMessage_in_order)

text \<open>Three calls of \<open>next\<close> by the first of three middlewares: each one runs once.\<close>

theorem C7_each_middleware_at_most_once_witness:
  "invoked (snd (onMessage (use Resolve (use (Next Resolve) (use (Next (Next (Next Resolve)))
       (new_Chatbot config_plain)))) hello empty_world)) = [0, 1, 2] \<and>
   distinct (invoked (snd (onMessage (use Resolve (use (Next Resolve) (use (Next (Next (Next Resolve)))
       (new_Chatbot config_plain)))) hello empty_world)))"
  using C7_each_middleware_at_most_once[of "use Resolve (use (Next Resolve) (use (Next (Next (Next Resolve)))
       (new_Chatbot config_plain)))" hello empty_world]
  by (simp add: chatbot_defs example_defs)

section \<open>Timestamps on save\<close>

text \<open>
  Claim C8. \<open>save\<close> should set \<open>updatedAt\<close> on every persist. The code evaluated
  on a session created at time 5 and saved at time 9: the save succeeds, and
  \<open>updatedAt\<close> is still 5 in the returned session and in the store, because the
  pre-save hook that would set it works on the module's \<open>this\<close>.
\<close>

theorem C8_save_leaves_updatedAt:
  "(case Session_create ''c1'' empty_world of
      (Inl e, w1) \<Rightarrow> False
    | (Inr s, w1) \<Rightarrow>
        (case Session_save s (w1\<lparr>clock := 9\<rparr>) of
           (Inl e, w2) \<Rightarrow> False
         | (Inr s', w2) \<Rightarrow>
             new_Date (w1\<lparr>clock := 9\<rparr>) = 9 \<and>
             updatedAt (document s') = Some 5 \<and>
             map updatedAt (docs w2) = [Some 5]))"
  by (simp add: store_defs session_defs example_defs Let_def)

section \<open>Persistence disabled\<close>



section \<open>The hosting entry point\<close>

text \<open>
  Claim C10, as amended. When neither \<open>body.message\<close> nor \<open>body.text\<close> is truthy,
  \<open>botHostingEntrypoint\<close> makes no call of \<open>handleMessage\<close> (the way to
  \<open>onMessage\<close>) and none of \<open>converseText\<close>, and its first call is the callback with
  the error \<open>No text provided\<close>. When the callback returns from that call, it is the
  only call. When the callback throws, the \<open>catch\<close> block calls it once more, with what
  it threw.
\<close>

theorem C10_no_text_provided:
  assumes "\<not> truthy (body_message body)" and "\<not> truthy (body_text body)"
  shows "(callback (Some no_text) None = None \<longrightarrow>
            botHostingEntrypoint cb sdk callback body = ([Callback (Some no_text) None], None)) \<and>
         (\<forall>thrown. callback (Some no_text) None = Some thrown \<longrightarrow>
            botHostingEntrypoint cb sdk callback body =
              ([Callback (Some no_text) None, Callback (Some thrown) None],
               callback (Some thrown) None)) \<and>
         list_all is_callback (fst (botHostingEntrypoint cb sdk callback body)) \<and>
         (\<exists>later. fst (botHostingEntrypoint cb sdk callback body) = Callback (Some no_text) None # later)"
  using assms
  by (cases "callback (Some no_text) None")
     (simp_all add: botHostingEntrypoint_def try_block_def no_text_def)

theorem C10_no_text_provided_witness:
  "\<not> truthy (body_message no_body) \<and> \<not> truthy (body_text no_body) \<and>
   returns (Some no_text) None = None \<and>
   botHostingEntrypoint (new_Chatbot config_plain) silent_sdk returns no_body
     = ([Callback (Some no_text) None], None) \<and>
   throws_on_error (Some no_text) None = Some (TypeError ''thrown by the callback'') \<and>
   botHostingEntrypoint (new_Chatbot config_plain) silent_sdk throws_on_error no_body
     = ([Callback (Some no_text) None, Callback (Some (TypeError ''thrown by the callback'')) None],
        None)"
proof -
  have h1: "\<not> truthy (body_message no_body)" and h2: "\<not> truthy (body_text no_body)"
    by (simp_all add: truthy_def no_body_def)
  have r: "returns (Some no_text) None = None"
    by (simp add: returns_def)
  have t: "throws_on_error (Some no_text) None = Some (TypeError ''thrown by the callback'')"
    and u: "throws_on_error (Some (TypeError ''thrown by the callback'')) None = None"
    by (simp_all add: throws_on_error_def no_text_def)
  have once: "botHostingEntrypoint (new_Chatbot config_plain) silent_sdk returns no_body
                = ([Callback (Some no_text) None], None)"
    using C10_no_text_provided[OF h1 h2, of returns "new_Chatbot config_plain" silent_sdk] r
    by blast
  have twice: "botHostingEntrypoint (new_Chatbot config_plain) silent_sdk throws_on_error no_body
                = ([Callback (Some no_text) None,
                    Callback (Some (TypeError ''thrown by the callback'')) None],
                   throws_on_error (Some (TypeError ''thrown by the callback'')) None)"
    using C10_no_text_provided[OF h1 h2, of throws_on_error "new_Chatbot config_plain" silent_sdk] t
    by blast
  from h1 h2 r t once twice u show ?thesis by simp
qed

text \<open>
  Claim C10 as stated fails for a callback that throws: it is called twice, the second
  time with another error.
\<close>

theorem C10_throwing_callback_called_twice_counterexample:
  "\<not> truthy (body_message no_body) \<and> \<not> truthy (body_text no_body) \<and>
   fst (botHostingEntrypoint (new_Chatbot config_plain) silent_sdk throws_on_error no_body)
     = [Callback (Some no_text) None, Callback (Some (TypeError ''thrown by the callback'')) None] \<and>
   length (filter is_callback
     (fst (botHostingEntrypoint (new_Chatbot config_plain) silent_sdk throws_on_error no_body))) = 2"
  by (simp add: botHostingEntrypoint_def try_block_def truthy_def no_body_def
                throws_on_error_def no_text_def)

end
